theory Spec2Isabelle
  imports Main "HOL-Library.Multiset"
begin

section \<open>Data model\<close>

text \<open>
  The rows of the relational store. \<^verbatim>\<open>SlideModel\<close> and \<^verbatim>\<open>PresentationModel\<close> are
  declared outside the files at hand: their fields are the ones that \<^verbatim>\<open>slide.py\<close>
  reads and writes, and \<^verbatim>\<open>presentation.get_layout()\<close> is a field. A UUID is a natural
  number; \<^verbatim>\<open>uuid.uuid4()\<close> is an input of each operation (the value the call returned).
  A slide's \<^verbatim>\<open>content\<close> is a JSON object, kept as an association list from keys to
  serialised values.
\<close>

type_synonym uuid = nat

type_synonym content = "(string \<times> string) list"

datatype error =
    HTTPException int string
  | IndexError
  | CollaboratorError string

record SlideLayout =
  layout_id :: string

record LayoutModel =
  layout_name :: string
  ordered :: bool
  layout_slides :: "SlideLayout list"

record SlideModel =
  slide_id :: uuid
  presentation :: uuid
  layout_group :: string
  layout :: string
  slide_index :: int
  speaker_note :: string
  slide_content :: content
  html_content :: "string option"

record PresentationModel =
  presentation_id :: uuid
  n_slides :: int
  language :: string
  tone :: string
  verbosity :: string
  instructions :: string
  get_layout :: LayoutModel

record ImageAsset =
  asset_id :: uuid
  is_uploaded :: bool
  path :: string
  s3_url :: "string option"

record PresentationWithSlides =
  pws_presentation :: PresentationModel
  pws_slides :: "SlideModel list"

text \<open>
  The database is its three tables. A session holds the committed tables (\<open>store\<close>) and
  the transaction's own view (\<open>work\<close>): every ORM mutation acts on \<open>work\<close>, and only
  \<^verbatim>\<open>sql_session.commit()\<close> copies it to \<open>store\<close>. A request that raises leaves the
  session without committing, so what the next request sees is \<open>store\<close>.
\<close>

record database =
  presentations :: "PresentationModel list"
  slides :: "SlideModel list"
  assets :: "ImageAsset list"

record session =
  store :: database
  work :: database

definition begin_session :: "database \<Rightarrow> session" where
  "begin_session db = \<lparr>store = db, work = db\<rparr>"

definition commit :: "session \<Rightarrow> session" where
  "commit s = s\<lparr>store := work s\<rparr>"

text \<open>
  The collaborators that \<^verbatim>\<open>slide.py\<close> awaits. Each either raises (\<open>Inl\<close>) or returns.
  The two asset functions mutate the content they are given; they return the content as
  they left it.
\<close>

record collaborators =
  to_presentation_structure :: "LayoutModel \<Rightarrow> int list"
  generate_presentation_structure ::
    "string \<Rightarrow> LayoutModel \<Rightarrow> string \<Rightarrow> bool \<Rightarrow> error + int list"
  get_slide_content_from_type_and_outline ::
    "SlideLayout \<Rightarrow> string \<Rightarrow> string \<Rightarrow> string \<Rightarrow> string \<Rightarrow> string \<Rightarrow> error + content"
  process_slide_and_fetch_assets :: "SlideModel \<Rightarrow> error + (ImageAsset list \<times> content)"
  get_slide_layout_from_prompt :: "string \<Rightarrow> LayoutModel \<Rightarrow> SlideModel \<Rightarrow> error + SlideLayout"
  get_edited_slide_content ::
    "string \<Rightarrow> SlideModel \<Rightarrow> string \<Rightarrow> SlideLayout \<Rightarrow> error + content"
  process_old_and_new_slides_and_fetch_assets ::
    "content \<Rightarrow> content \<Rightarrow> error + (ImageAsset list \<times> content)"
  get_edited_slide_html :: "string \<Rightarrow> string \<Rightarrow> error + string"

section \<open>Queries and mutations of the session\<close>

definition sql_get_presentation :: "database \<Rightarrow> uuid \<Rightarrow> PresentationModel option" where
  "sql_get_presentation db pid = find (\<lambda>p. presentation_id p = pid) (presentations db)"

definition sql_get_slide :: "database \<Rightarrow> uuid \<Rightarrow> SlideModel option" where
  "sql_get_slide db i = find (\<lambda>s. slide_id s = i) (slides db)"

definition live_slides :: "database \<Rightarrow> uuid \<Rightarrow> SlideModel list" where
  "live_slides db pid = filter (\<lambda>s. presentation s = pid) (slides db)"

text \<open>\<^verbatim>\<open>select(SlideModel).where(presentation == pid).order_by(index)\<close>\<close>

definition select_ordered :: "database \<Rightarrow> uuid \<Rightarrow> SlideModel list" where
  "select_ordered db pid = sort_key slide_index (live_slides db pid)"

text \<open>\<^verbatim>\<open>select(SlideModel).where((presentation == pid) & (index == i))\<close>, then \<^verbatim>\<open>.first()\<close>\<close>

definition select_at :: "database \<Rightarrow> uuid \<Rightarrow> int \<Rightarrow> SlideModel list" where
  "select_at db pid i = filter (\<lambda>s. presentation s = pid \<and> slide_index s = i) (slides db)"

definition first :: "'a list \<Rightarrow> 'a option" where
  "first xs = (case xs of [] \<Rightarrow> None | x # _ \<Rightarrow> Some x)"

text \<open>\<^verbatim>\<open>.where((presentation == pid) & (index >= i)).order_by(index.desc())\<close>\<close>

definition select_from_desc :: "database \<Rightarrow> uuid \<Rightarrow> int \<Rightarrow> SlideModel list" where
  "select_from_desc db pid i =
     sort_key (\<lambda>s. - slide_index s)
       (filter (\<lambda>s. presentation s = pid \<and> slide_index s \<ge> i) (slides db))"

text \<open>\<^verbatim>\<open>.where((presentation == pid) & (index > i)).order_by(index)\<close>\<close>

definition select_after_asc :: "database \<Rightarrow> uuid \<Rightarrow> int \<Rightarrow> SlideModel list" where
  "select_after_asc db pid i =
     sort_key slide_index
       (filter (\<lambda>s. presentation s = pid \<and> slide_index s > i) (slides db))"

text \<open>
  \<^verbatim>\<open>s.index = s.index + d; sql_session.add(s)\<close> on a loaded row \<open>s\<close>: the row of that
  primary key in the session's view gets the new index.
\<close>

definition shift_row :: "int \<Rightarrow> uuid \<Rightarrow> SlideModel \<Rightarrow> SlideModel" where
  "shift_row d i r = (if slide_id r = i then r\<lparr>slide_index := slide_index r + d\<rparr> else r)"

definition shift_index :: "int \<Rightarrow> database \<Rightarrow> SlideModel \<Rightarrow> database" where
  "shift_index d db s = db\<lparr>slides := map (shift_row d (slide_id s)) (slides db)\<rparr>"

text \<open>\<^verbatim>\<open>sa_delete(SlideModel).where(SlideModel.id == i)\<close>\<close>

definition sa_delete :: "database \<Rightarrow> uuid \<Rightarrow> database" where
  "sa_delete db i = db\<lparr>slides := filter (\<lambda>s. slide_id s \<noteq> i) (slides db)\<rparr>"

definition add_slide :: "database \<Rightarrow> SlideModel \<Rightarrow> database" where
  "add_slide db s = db\<lparr>slides := slides db @ [s]\<rparr>"

definition add_all :: "database \<Rightarrow> ImageAsset list \<Rightarrow> database" where
  "add_all db as = db\<lparr>assets := assets db @ as\<rparr>"

definition set_n_slides :: "database \<Rightarrow> uuid \<Rightarrow> int \<Rightarrow> database" where
  "set_n_slides db pid n =
     db\<lparr>presentations :=
          map (\<lambda>p. if presentation_id p = pid then p\<lparr>n_slides := n\<rparr> else p) (presentations db)\<rparr>"

text \<open>
  Replacing a loaded slide by its mutated self. SQLAlchemy updates the row of the primary
  key the object was loaded with, the primary key included.
\<close>

definition update_slide :: "database \<Rightarrow> uuid \<Rightarrow> SlideModel \<Rightarrow> database" where
  "update_slide db old s =
     db\<lparr>slides := map (\<lambda>r. if slide_id r = old then s else r) (slides db)\<rparr>"

text \<open>Python's \<^verbatim>\<open>xs[i]\<close>: a negative index counts from the end, out of range raises.\<close>

definition py_index :: "'a list \<Rightarrow> int \<Rightarrow> error + 'a" where
  "py_index xs i =
     (if 0 \<le> i \<and> i < int (length xs) then Inr (xs ! nat i)
      else if i < 0 \<and> - int (length xs) \<le> i then Inr (xs ! nat (int (length xs) + i))
      else Inl IndexError)"

text \<open>Python's \<^verbatim>\<open>d.get(k, default)\<close>\<close>

definition content_get :: "content \<Rightarrow> string \<Rightarrow> string \<Rightarrow> string" where
  "content_get c k d = (case map_of c k of None \<Rightarrow> d | Some v \<Rightarrow> v)"

section \<open>Insert at index: \<^verbatim>\<open>create_slide\<close>\<close>

text \<open>Lines 213 to 222: the structure comes from the layout itself when it is ordered.\<close>

definition presentation_structure ::
  "collaborators \<Rightarrow> PresentationModel \<Rightarrow> string \<Rightarrow> error + int list" where
  "presentation_structure c p content =
     (let layout_model = get_layout p
      in if ordered layout_model then Inr (to_presentation_structure c layout_model)
         else generate_presentation_structure c content layout_model (instructions p) True)"

text \<open>Lines 224 to 234: one layout index, the fallback, and the layout at that index.\<close>

definition select_slide_layout :: "LayoutModel \<Rightarrow> int list \<Rightarrow> error + SlideLayout" where
  "select_slide_layout layout_model structure =
     (case take 1 structure of
        [] \<Rightarrow> Inl (HTTPException 500 ''Failed to select slide layout'')
      | layout_index # _ \<Rightarrow>
          py_index (layout_slides layout_model)
            (if layout_index \<ge> int (length (layout_slides layout_model)) then 0
             else layout_index))"

text \<open>Lines 256 to 269: the loop over the rows at or after the insertion point.\<close>

definition reindex_for_insert :: "database \<Rightarrow> uuid \<Rightarrow> int \<Rightarrow> database" where
  "reindex_for_insert db pid i = foldl (shift_index 1) db (select_from_desc db pid i)"

text \<open>Line 282: \<^verbatim>\<open>(presentation.n_slides or len(slides_list)) + 1\<close>\<close>

definition n_slides_after_insert :: "PresentationModel \<Rightarrow> SlideModel list \<Rightarrow> int" where
  "n_slides_after_insert p slides_list =
     (if n_slides p \<noteq> 0 then n_slides p else int (length slides_list)) + 1"

text \<open>Lines 246 to 254: the row to insert; its identity is the default \<^verbatim>\<open>uuid4()\<close>.\<close>

definition new_slide_model ::
  "uuid \<Rightarrow> uuid \<Rightarrow> LayoutModel \<Rightarrow> SlideLayout \<Rightarrow> int \<Rightarrow> content \<Rightarrow> SlideModel" where
  "new_slide_model uuid4 pid layout_model slide_layout index generated =
     \<lparr>slide_id = uuid4, presentation = pid, layout_group = layout_name layout_model,
      layout = layout_id slide_layout, slide_index = index,
      speaker_note = content_get generated ''__speaker_note__'' '''',
      slide_content = generated, html_content = None\<rparr>"

definition create_slide ::
  "collaborators \<Rightarrow> uuid \<Rightarrow> uuid \<Rightarrow> int \<Rightarrow> string \<Rightarrow> session
     \<Rightarrow> (error + PresentationWithSlides) \<times> session" where
  "create_slide c uuid4 pid index content s =
     (case sql_get_presentation (work s) pid of
        None \<Rightarrow> (Inl (HTTPException 404 ''Presentation not found''), s)
      | Some p \<Rightarrow>
          let slides_list = select_ordered (work s) pid
          in if index < 0 \<or> index > int (length slides_list)
             then (Inl (HTTPException 400 ''Slide index out of range''), s)
             else
               (case presentation_structure c p content of
                  Inl e \<Rightarrow> (Inl e, s)
                | Inr structure \<Rightarrow>
                    (case select_slide_layout (get_layout p) structure of
                       Inl e \<Rightarrow> (Inl e, s)
                     | Inr slide_layout \<Rightarrow>
                         (case get_slide_content_from_type_and_outline c slide_layout content
                                 (language p) (tone p) (verbosity p) (instructions p) of
                            Inl e \<Rightarrow> (Inl e, s)
                          | Inr generated \<Rightarrow>
                              let new_slide =
                                    new_slide_model uuid4 pid (get_layout p) slide_layout
                                      index generated;
                                  s1 = s\<lparr>work := reindex_for_insert (work s) pid index\<rparr>
                              in (case process_slide_and_fetch_assets c new_slide of
                                    Inl e \<Rightarrow> (Inl e, s1)
                                  | Inr (generated_assets, fetched) \<Rightarrow>
                                      let p' = p\<lparr>n_slides := n_slides_after_insert p slides_list\<rparr>;
                                          w2 = add_slide (work s1)
                                                 (new_slide\<lparr>slide_content := fetched\<rparr>);
                                          w3 = add_all w2 generated_assets;
                                          w4 = set_n_slides w3 pid (n_slides p');
                                          s5 = commit (s1\<lparr>work := w4\<rparr>)
                                      in (Inr \<lparr>pws_presentation = p',
                                               pws_slides = select_ordered (work s5) pid\<rparr>,
                                          s5))))))"

section \<open>Delete at index: \<^verbatim>\<open>delete_slide\<close>\<close>

text \<open>Lines 151 to 163: the loop over the rows after the deleted one.\<close>

definition reindex_for_delete :: "database \<Rightarrow> uuid \<Rightarrow> int \<Rightarrow> database" where
  "reindex_for_delete db pid i = foldl (shift_index (- 1)) db (select_after_asc db pid i)"

definition delete_slide ::
  "uuid \<Rightarrow> int \<Rightarrow> session \<Rightarrow> (error + PresentationWithSlides) \<times> session" where
  "delete_slide pid index s =
     (case sql_get_presentation (work s) pid of
        None \<Rightarrow> (Inl (HTTPException 404 ''Presentation not found''), s)
      | Some p \<Rightarrow>
          let slides_list = select_ordered (work s) pid
          in if index < 0 \<or> index \<ge> int (length slides_list)
             then (Inl (HTTPException 400 ''Slide index out of range''), s)
             else
               (case first (select_at (work s) pid index) of
                  None \<Rightarrow> (Inl (HTTPException 404 ''Slide not found''), s)
                | Some slide_to_delete \<Rightarrow>
                    let w1 = sa_delete (work s) (slide_id slide_to_delete);
                        w2 = reindex_for_delete w1 pid index;
                        p' = p\<lparr>n_slides := max 0 (n_slides p - 1)\<rparr>;
                        w3 = set_n_slides w2 pid (n_slides p');
                        s4 = commit (s\<lparr>work := w3\<rparr>)
                    in (Inr \<lparr>pws_presentation = p',
                             pws_slides = select_ordered (work s4) pid\<rparr>,
                        s4)))"

section \<open>Content edits: \<^verbatim>\<open>edit_slide\<close> and \<^verbatim>\<open>edit_slide_html\<close>\<close>

definition edit_slide ::
  "collaborators \<Rightarrow> uuid \<Rightarrow> uuid \<Rightarrow> int \<Rightarrow> string \<Rightarrow> session
     \<Rightarrow> (error + SlideModel) \<times> session" where
  "edit_slide c uuid4 pid index prompt s =
     (case sql_get_presentation (work s) pid of
        None \<Rightarrow> (Inl (HTTPException 404 ''Presentation not found''), s)
      | Some p \<Rightarrow>
          (case first (select_at (work s) pid index) of
             None \<Rightarrow> (Inl (HTTPException 404 ''Slide not found''), s)
           | Some slide \<Rightarrow>
               (case get_slide_layout_from_prompt c prompt (get_layout p) slide of
                  Inl e \<Rightarrow> (Inl e, s)
                | Inr slide_layout \<Rightarrow>
                    (case get_edited_slide_content c prompt slide (language p) slide_layout of
                       Inl e \<Rightarrow> (Inl e, s)
                     | Inr edited \<Rightarrow>
                         (case process_old_and_new_slides_and_fetch_assets c
                                 (slide_content slide) edited of
                            Inl e \<Rightarrow> (Inl e, s)
                          | Inr (new_assets, edited_slide_content) \<Rightarrow>
                              let slide' =
                                    slide\<lparr>slide_id := uuid4,
                                          slide_content := edited_slide_content,
                                          layout := layout_id slide_layout,
                                          speaker_note :=
                                            content_get edited_slide_content
                                              ''__speaker_note__'' ''''\<rparr>;
                                  w1 = update_slide (work s) (slide_id slide) slide';
                                  w2 = add_all w1 new_assets;
                                  s3 = commit (s\<lparr>work := w2\<rparr>)
                              in (Inr slide', s3))))))"

text \<open>Python's \<^verbatim>\<open>html or slide.html_content\<close>: \<^verbatim>\<open>None\<close> and the empty string are falsy.\<close>

definition truthy :: "string option \<Rightarrow> bool" where
  "truthy x = (case x of None \<Rightarrow> False | Some v \<Rightarrow> v \<noteq> [])"

definition py_or :: "string option \<Rightarrow> string option \<Rightarrow> string option" where
  "py_or a b = (if truthy a then a else b)"

definition edit_slide_html ::
  "collaborators \<Rightarrow> uuid \<Rightarrow> uuid \<Rightarrow> string \<Rightarrow> string option \<Rightarrow> session
     \<Rightarrow> (error + SlideModel) \<times> session" where
  "edit_slide_html c uuid4 i prompt html s =
     (case sql_get_slide (work s) i of
        None \<Rightarrow> (Inl (HTTPException 404 ''Slide not found''), s)
      | Some slide \<Rightarrow>
          (case py_or html (html_content slide) of
             None \<Rightarrow> (Inl (HTTPException 400 ''No HTML to edit''), s)
           | Some html_to_edit \<Rightarrow>
               if html_to_edit = [] then (Inl (HTTPException 400 ''No HTML to edit''), s)
               else
                 (case get_edited_slide_html c prompt html_to_edit of
                    Inl e \<Rightarrow> (Inl e, s)
                  | Inr edited_slide_html \<Rightarrow>
                      let slide' = slide\<lparr>slide_id := uuid4,
                                         html_content := Some edited_slide_html\<rparr>;
                          w1 = update_slide (work s) (slide_id slide) slide';
                          s2 = commit (s\<lparr>work := w1\<rparr>)
                      in (Inr slide', s2))))"

section \<open>Object storage: \<^verbatim>\<open>s3_utils.py\<close>\<close>






















section \<open>Predicates of the specification\<close>

text \<open>
  The live slides of a presentation are contiguous when the ordered listing has the
  indices \<open>0, 1, \<dots>, count - 1\<close>. The primary key of the slide table is \<open>slide_id\<close>.
\<close>

definition contiguous :: "database \<Rightarrow> uuid \<Rightarrow> bool" where
  "contiguous db pid \<longleftrightarrow>
     map slide_index (select_ordered db pid) = map int [0..<length (live_slides db pid)]"

definition primary_key :: "database \<Rightarrow> bool" where
  "primary_key db \<longleftrightarrow> distinct (map slide_id (slides db))"

definition fresh_uuid :: "database \<Rightarrow> uuid \<Rightarrow> bool" where
  "fresh_uuid db u \<longleftrightarrow> u \<notin> set (map slide_id (slides db))"



section \<open>Example data\<close>

definition example_layout :: LayoutModel where
  "example_layout =
     \<lparr>layout_name = ''general'', ordered = False,
      layout_slides = [\<lparr>layout_id = ''title''\<rparr>, \<lparr>layout_id = ''bullets''\<rparr>,
                       \<lparr>layout_id = ''image''\<rparr>]\<rparr>"

definition example_presentation :: PresentationModel where
  "example_presentation =
     \<lparr>presentation_id = 1, n_slides = 3, language = ''English'', tone = ''plain'',
      verbosity = ''short'', instructions = '''', get_layout = example_layout\<rparr>"

definition example_slide :: "uuid \<Rightarrow> int \<Rightarrow> SlideModel" where
  "example_slide i k =
     \<lparr>slide_id = i, presentation = 1, layout_group = ''general'', layout = ''title'',
      slide_index = k, speaker_note = '''', slide_content = [(''title'', ''t'')],
      html_content = None\<rparr>"

definition example_db :: database where
  "example_db =
     \<lparr>presentations = [example_presentation],
      slides = [example_slide 10 0, example_slide 11 1, example_slide 12 2],
      assets = []\<rparr>"

definition example_collaborators :: "int list \<Rightarrow> collaborators" where
  "example_collaborators suggestion =
     \<lparr>to_presentation_structure = (\<lambda>l. map int [0..<length (layout_slides l)]),
      generate_presentation_structure = (\<lambda>_ _ _ _. Inr suggestion),
      get_slide_content_from_type_and_outline =
        (\<lambda>_ outline _ _ _ _. Inr [(''title'', outline), (''__speaker_note__'', ''note'')]),
      process_slide_and_fetch_assets = (\<lambda>sl. Inr ([], slide_content sl)),
      get_slide_layout_from_prompt = (\<lambda>_ l _. Inr \<lparr>layout_id = ''bullets''\<rparr>),
      get_edited_slide_content = (\<lambda>prompt _ _ _. Inr [(''title'', prompt)]),
      process_old_and_new_slides_and_fetch_assets = (\<lambda>_ new. Inr ([], new)),
      get_edited_slide_html = (\<lambda>prompt html. Inr (html @ prompt))\<rparr>"



section \<open>The reindex loops as one bulk update\<close>

text \<open>
  Under the primary key, the loop over the selected rows rewrites exactly the rows that
  the selection names, whatever the order of the loop.
\<close>

lemma shift_index_frame [simp]:
  "presentations (shift_index d db x) = presentations db"
  "assets (shift_index d db x) = assets db"
  by (simp_all add: shift_index_def)

lemma slides_shift_index [simp]:
  "slides (shift_index d db x) = map (shift_row d (slide_id x)) (slides db)"
  by (simp add: shift_index_def)

lemma foldl_shift_index_frame:
  "presentations (foldl (shift_index d) db subs) = presentations db \<and>
   assets (foldl (shift_index d) db subs) = assets db"
  by (induction subs arbitrary: db) simp_all

lemma foldl_shift_index_slides:
  assumes "distinct (map slide_id subs)"
  shows "slides (foldl (shift_index d) db subs) =
           map (\<lambda>r. if slide_id r \<in> slide_id ` set subs
                     then r\<lparr>slide_index := slide_index r + d\<rparr> else r) (slides db)"
  using assms
proof (induction subs arbitrary: db)
  case Nil
  then show ?case by simp
next
  case (Cons x xs)
  then have "slides (foldl (shift_index d) (shift_index d db x) xs) =
      map (\<lambda>r. if slide_id r \<in> slide_id ` set xs
                then r\<lparr>slide_index := slide_index r + d\<rparr> else r)
        (slides (shift_index d db x))"
    by simp
  moreover have "slide_id x \<notin> slide_id ` set xs"
    using Cons.prems by auto
  ultimately show ?case
    by (auto simp: shift_row_def)
qed

lemma distinct_ids_sort_filter:
  assumes "distinct (map slide_id rows)"
  shows "distinct (map slide_id (sort_key k (filter P rows)))"
proof -
  have "distinct (map slide_id (filter P rows))"
    using assms by (rule distinct_map_filter)
  moreover have "mset (map slide_id (sort_key k (filter P rows))) =
                 mset (map slide_id (filter P rows))"
    by simp
  ultimately show ?thesis
    by (metis mset_eq_imp_distinct_iff)
qed

lemma id_in_selected:
  assumes "distinct (map slide_id rows)" and "r \<in> set rows"
  shows "slide_id r \<in> slide_id ` {x \<in> set rows. P x} \<longleftrightarrow> P r"
proof -
  have "inj_on slide_id (set rows)"
    using assms(1) by (simp add: distinct_map)
  then show ?thesis
    using assms(2) by (auto dest: inj_onD)
qed

lemma bulk_shift:
  assumes "distinct (map slide_id (slides db))"
  shows "slides (foldl (shift_index d) db (sort_key k (filter P (slides db)))) =
           map (\<lambda>r. if P r then r\<lparr>slide_index := slide_index r + d\<rparr> else r) (slides db)"
proof -
  have "slides (foldl (shift_index d) db (sort_key k (filter P (slides db)))) =
        map (\<lambda>r. if slide_id r \<in> slide_id ` set (sort_key k (filter P (slides db)))
                  then r\<lparr>slide_index := slide_index r + d\<rparr> else r) (slides db)"
    using assms by (intro foldl_shift_index_slides distinct_ids_sort_filter)
  also have "\<dots> = map (\<lambda>r. if P r then r\<lparr>slide_index := slide_index r + d\<rparr> else r) (slides db)"
    by (rule map_cong[OF refl]) (simp add: id_in_selected[OF assms])
  finally show ?thesis .
qed

lemma slides_reindex_for_insert:
  assumes "primary_key db"
  shows "slides (reindex_for_insert db pid i) =
           map (\<lambda>r. if presentation r = pid \<and> i \<le> slide_index r
                     then r\<lparr>slide_index := slide_index r + 1\<rparr> else r) (slides db)"
  using assms unfolding reindex_for_insert_def select_from_desc_def primary_key_def
  by (rule bulk_shift)

lemma slides_reindex_for_delete:
  assumes "primary_key db"
  shows "slides (reindex_for_delete db pid i) =
           map (\<lambda>r. if presentation r = pid \<and> i < slide_index r
                     then r\<lparr>slide_index := slide_index r + (- 1)\<rparr> else r) (slides db)"
  using assms unfolding reindex_for_delete_def select_after_asc_def primary_key_def
  by (rule bulk_shift)

lemma reindex_frame [simp]:
  "presentations (reindex_for_insert db pid i) = presentations db"
  "assets (reindex_for_insert db pid i) = assets db"
  "presentations (reindex_for_delete db pid i) = presentations db"
  "assets (reindex_for_delete db pid i) = assets db"
  by (simp_all add: reindex_for_insert_def reindex_for_delete_def foldl_shift_index_frame)

text \<open>What a committed insert leaves in the store.\<close>

lemma create_slide_committed:
  assumes "create_slide c uuid4 pid i content s = (Inr r, s')"
  shows "\<exists>p new.
    sql_get_presentation (work s) pid = Some p
    \<and> 0 \<le> i \<and> i \<le> int (length (live_slides (work s) pid))
    \<and> slides (store s') = slides (reindex_for_insert (work s) pid i) @ [new]
    \<and> slide_id new = uuid4 \<and> presentation new = pid \<and> slide_index new = i
    \<and> presentations (store s') =
       map (\<lambda>q. if presentation_id q = pid
                 then q\<lparr>n_slides := n_slides_after_insert p (select_ordered (work s) pid)\<rparr>
                 else q) (presentations (work s))
    \<and> work s' = store s'
    \<and> r = \<lparr>pws_presentation = p\<lparr>n_slides := n_slides_after_insert p (select_ordered (work s) pid)\<rparr>,
          pws_slides = select_ordered (store s') pid\<rparr>"
  using assms
  by (auto simp: create_slide_def Let_def commit_def add_slide_def add_all_def set_n_slides_def
        new_slide_model_def select_ordered_def
      split: option.splits if_splits sum.splits prod.splits)

lemma delete_slide_committed:
  assumes "delete_slide pid i s = (Inr r, s')"
  shows "\<exists>p victim.
    sql_get_presentation (work s) pid = Some p
    \<and> 0 \<le> i \<and> i < int (length (live_slides (work s) pid))
    \<and> first (select_at (work s) pid i) = Some victim
    \<and> slides (store s') = slides (reindex_for_delete (sa_delete (work s) (slide_id victim)) pid i)
    \<and> presentations (store s') =
       map (\<lambda>q. if presentation_id q = pid then q\<lparr>n_slides := max 0 (n_slides p - 1)\<rparr> else q)
         (presentations (work s))
    \<and> work s' = store s'
    \<and> r = \<lparr>pws_presentation = p\<lparr>n_slides := max 0 (n_slides p - 1)\<rparr>,
          pws_slides = select_ordered (store s') pid\<rparr>"
  using assms
  by (auto simp: delete_slide_def Let_def commit_def set_n_slides_def select_ordered_def sa_delete_def
      split: option.splits if_splits)

section \<open>Contiguity of the indices\<close>

lemma work_begin_session: "work (begin_session db) = db"
  by (simp add: begin_session_def)

lemma map_sort_key_same: "map f (sort_key f xs) = sort (map f xs)"
  by (rule properties_for_sort[symmetric]) simp_all

lemma contiguous_mset:
  "contiguous db pid \<longleftrightarrow>
     mset (map slide_index (live_slides db pid)) = mset (map int [0..<length (live_slides db pid)])"
proof
  assume "contiguous db pid"
  then have "sort (map slide_index (live_slides db pid)) = map int [0..<length (live_slides db pid)]"
    by (simp add: contiguous_def select_ordered_def map_sort_key_same)
  then have "mset (sort (map slide_index (live_slides db pid))) =
             mset (map int [0..<length (live_slides db pid)])"
    by simp
  then show "mset (map slide_index (live_slides db pid)) =
             mset (map int [0..<length (live_slides db pid)])"
    by (simp only: mset_sort)
next
  assume a: "mset (map slide_index (live_slides db pid)) =
             mset (map int [0..<length (live_slides db pid)])"
  have "sorted (map int [0..<length (live_slides db pid)])"
    by (simp add: sorted_map)
  with a have "sort (map slide_index (live_slides db pid)) = map int [0..<length (live_slides db pid)]"
    by (intro properties_for_sort) simp_all
  then show "contiguous db pid"
    by (simp add: contiguous_def select_ordered_def map_sort_key_same)
qed

lemma upt_split: "k \<le> n \<Longrightarrow> [0..<n] = [0..<k] @ [k..<n]"
  by (metis bot_nat_0.extremum less_eqE upt_add_eq_append)

lemma upt_split_at:
  assumes "k \<le> n"
  shows "[0..<Suc n] = [0..<k] @ k # [Suc k..<Suc n]"
proof -
  have "[0..<Suc n] = [0..<k] @ [k..<Suc n]"
    using assms by (intro upt_split) simp
  moreover have "[k..<Suc n] = k # [Suc k..<Suc n]"
    using assms by (intro upt_conv_Cons) simp
  ultimately show ?thesis by simp
qed

lemma shift_up_list:
  assumes "k \<le> n"
  shows "map (\<lambda>x. if int k \<le> x then x + 1 else x) (map int [0..<n]) =
         map int ([0..<k] @ [Suc k..<Suc n])"
proof -
  have split: "[0..<n] = [0..<k] @ [k..<n]"
    using assms by (rule upt_split)
  have low: "map ((\<lambda>x. if int k \<le> x then x + 1 else x) \<circ> int) [0..<k] = map int [0..<k]"
    by (rule map_cong) auto
  have "map ((\<lambda>x. if int k \<le> x then x + 1 else x) \<circ> int) [k..<n] = map (int \<circ> Suc) [k..<n]"
    by (rule map_cong) auto
  also have "\<dots> = map int [Suc k..<Suc n]"
    by (simp only: map_map[symmetric] map_Suc_upt)
  finally have high:
    "map ((\<lambda>x. if int k \<le> x then x + 1 else x) \<circ> int) [k..<n] = map int [Suc k..<Suc n]" .
  have "map (\<lambda>x. if int k \<le> x then x + 1 else x) (map int [0..<n]) =
        map ((\<lambda>x. if int k \<le> x then x + 1 else x) \<circ> int) ([0..<k] @ [k..<n])"
    by (simp only: map_map split[symmetric])
  also have "\<dots> = map int [0..<k] @ map int [Suc k..<Suc n]"
    by (simp only: map_append low high)
  finally show ?thesis by (simp only: map_append)
qed

lemma shift_up_range:
  assumes "k \<le> n"
  shows "mset (map (\<lambda>x. if int k \<le> x then x + 1 else x) (map int [0..<n])) + {#int k#} =
         mset (map int [0..<Suc n])"
proof -
  have "mset (map int ([0..<k] @ [Suc k..<Suc n])) + {#int k#} =
        mset (map int ([0..<k] @ k # [Suc k..<Suc n]))"
    by (simp only: map_append list.map mset_append mset.simps) simp
  then show ?thesis
    by (simp only: shift_up_list[OF assms] upt_split_at[OF assms])
qed

lemma shift_down_range:
  assumes "k < n"
  shows "image_mset (\<lambda>x. if int k < x then x - 1 else x) (mset (map int [0..<n]) - {#int k#}) =
         mset (map int [0..<n - 1])"
proof -
  from assms obtain m where n: "n = Suc m" and km: "k \<le> m"
    by (cases n) auto
  let ?up = "\<lambda>x. if int k \<le> x then x + 1 else x"
  let ?down = "\<lambda>x. if int k < x then x - 1 else x"
  have "mset (map int [0..<n]) - {#int k#} = mset (map ?up (map int [0..<m]))"
    unfolding n shift_up_range[OF km, symmetric] by (simp only: add_mset_add_single[symmetric] add_mset_remove_trivial)
  then have "image_mset ?down (mset (map int [0..<n]) - {#int k#}) =
             mset (map ?down (map ?up (map int [0..<m])))"
    by (simp only: mset_map)
  also have "map ?down (map ?up (map int [0..<m])) = map int [0..<m]"
    by (simp only: map_map) (rule map_cong, auto)
  finally show ?thesis by (simp only: n diff_Suc_1)
qed

lemma live_indices_shifted:
  "map slide_index
     (filter (\<lambda>s. presentation s = pid)
        (map (\<lambda>r. if presentation r = pid \<and> P (slide_index r)
                  then r\<lparr>slide_index := slide_index r + d\<rparr> else r) rows)) =
   map (\<lambda>x. if P x then x + d else x)
     (map slide_index (filter (\<lambda>s. presentation s = pid) rows))"
  by (induction rows) auto

lemma mset_without_row:
  assumes "distinct (map f xs)" and "v \<in> set xs"
  shows "mset (map g (filter (\<lambda>s. f s \<noteq> f v) xs)) = mset (map g xs) - {#g v#}"
  using assms
proof (induction xs)
  case Nil
  then show ?case by simp
next
  case (Cons x xs)
  show ?case
  proof (cases "x = v")
    case True
    then have "\<forall>s \<in> set xs. f s \<noteq> f v"
      using Cons.prems(1) by (auto simp: image_iff)
    then have "filter (\<lambda>s. f s \<noteq> f v) xs = xs"
      by (simp add: filter_id_conv)
    with True show ?thesis by simp
  next
    case False
    with Cons.prems have "v \<in> set xs" and "f x \<noteq> f v" by auto
    with Cons show ?thesis by simp
  qed
qed

lemma first_SomeD: "first xs = Some v \<Longrightarrow> v \<in> set xs"
  by (cases xs) (simp_all add: first_def)

lemma contiguous_after_insert:
  assumes pk: "primary_key db" and ct: "contiguous db pid"
      and rng: "0 \<le> i" "i \<le> int (length (live_slides db pid))"
      and new: "presentation new = pid" "slide_index new = i"
      and db': "slides db' = slides (reindex_for_insert db pid i) @ [new]"
  shows "contiguous db' pid"
proof -
  let ?n = "length (live_slides db pid)"
  from rng obtain k where k: "i = int k" "k \<le> ?n"
    by (metis of_nat_le_iff nonneg_int_cases)
  have idx: "map slide_index (live_slides db' pid) =
        map (\<lambda>x. if i \<le> x then x + 1 else x) (map slide_index (live_slides db pid)) @ [i]"
    using new by (simp add: live_slides_def db' slides_reindex_for_insert[OF pk] live_indices_shifted)
  have len: "length (live_slides db' pid) = Suc ?n"
    using arg_cong[OF idx, of length] by simp
  have M: "mset (map slide_index (live_slides db pid)) = mset (map int [0..<?n])"
    using ct by (simp only: contiguous_mset)
  have "mset (map (\<lambda>x. if int k \<le> x then x + 1 else x) (map slide_index (live_slides db pid))) =
        mset (map (\<lambda>x. if int k \<le> x then x + 1 else x) (map int [0..<?n]))"
    by (simp only: mset_map[of "\<lambda>x. if int k \<le> x then x + 1 else x"] M)
  then have "mset (map slide_index (live_slides db' pid)) =
        mset (map (\<lambda>x. if int k \<le> x then x + 1 else x) (map int [0..<?n])) + {#int k#}"
    by (simp only: idx k mset_append mset.simps add_mset_add_single[symmetric])
  also have "\<dots> = mset (map int [0..<Suc ?n])"
    by (rule shift_up_range[OF k(2)])
  finally show ?thesis
    by (simp only: contiguous_mset len)
qed

lemma live_after_delete:
  assumes pk: "primary_key db" and v: "first (select_at db pid i) = Some victim"
      and db': "slides db' = slides (reindex_for_delete (sa_delete db (slide_id victim)) pid i)"
  shows "mset (map slide_index (live_slides db' pid)) =
         image_mset (\<lambda>x. if i < x then x - 1 else x)
           (mset (map slide_index (live_slides db pid)) - {#i#})"
    and "Suc (length (live_slides db' pid)) = length (live_slides db pid)"
proof -
  have vin: "victim \<in> set (live_slides db pid)" and vi: "slide_index victim = i"
    using first_SomeD[OF v] by (auto simp: select_at_def live_slides_def)
  have pk1: "primary_key (sa_delete db (slide_id victim))"
    using pk by (simp add: primary_key_def sa_delete_def distinct_map_filter)
  have dl: "distinct (map slide_id (live_slides db pid))"
    using pk by (simp add: primary_key_def live_slides_def distinct_map_filter)
  have flt: "filter (\<lambda>s. presentation s = pid) (slides (sa_delete db (slide_id victim))) =
             filter (\<lambda>s. slide_id s \<noteq> slide_id victim) (live_slides db pid)"
    by (simp add: sa_delete_def live_slides_def conj_commute)
  have idx: "map slide_index (live_slides db' pid) =
        map (\<lambda>x. if i < x then x + (- 1) else x)
          (map slide_index (filter (\<lambda>s. slide_id s \<noteq> slide_id victim) (live_slides db pid)))"
    by (simp only: live_slides_def[of db'] db' slides_reindex_for_delete[OF pk1]
          live_indices_shifted flt)
  let ?rest = "filter (\<lambda>s. slide_id s \<noteq> slide_id victim) (live_slides db pid)"
  have e1: "mset (map slide_index ?rest) = mset (map slide_index (live_slides db pid)) - {#i#}"
    using mset_without_row[OF dl vin, of slide_index] vi by simp
  have e2: "map slide_index (live_slides db' pid) =
            map (\<lambda>x. if i < x then x - 1 else x) (map slide_index ?rest)"
    using idx by simp
  show "mset (map slide_index (live_slides db' pid)) =
         image_mset (\<lambda>x. if i < x then x - 1 else x)
           (mset (map slide_index (live_slides db pid)) - {#i#})"
    unfolding e2 e1[symmetric] by (rule mset_map)
  have "length (live_slides db' pid) = length ?rest"
    using arg_cong[OF e2, of length] by simp
  moreover have "size (mset (map slide_index ?rest)) =
                 size (mset (map slide_index (live_slides db pid))) - 1"
    unfolding e1 using vin vi by (intro size_Diff_singleton) auto
  then have "length ?rest = length (live_slides db pid) - 1"
    by (simp only: size_mset length_map)
  moreover have "0 < length (live_slides db pid)"
    using vin by (rule length_pos_if_in_set)
  ultimately show "Suc (length (live_slides db' pid)) = length (live_slides db pid)"
    by simp
qed

lemma contiguous_after_delete:
  assumes pk: "primary_key db" and ct: "contiguous db pid"
      and rng: "0 \<le> i" "i < int (length (live_slides db pid))"
      and v: "first (select_at db pid i) = Some victim"
      and db': "slides db' = slides (reindex_for_delete (sa_delete db (slide_id victim)) pid i)"
  shows "contiguous db' pid"
proof -
  let ?n = "length (live_slides db pid)"
  from rng obtain k where k: "i = int k" "k < ?n"
    by (metis zero_le_imp_eq_int nat_int_comparison(2))
  note la = live_after_delete[OF pk v db']
  have len: "length (live_slides db' pid) = ?n - 1"
    using la(2) by simp
  have M: "mset (map slide_index (live_slides db pid)) = mset (map int [0..<?n])"
    using ct by (simp only: contiguous_mset)
  have "mset (map slide_index (live_slides db' pid)) =
        image_mset (\<lambda>x. if int k < x then x - 1 else x) (mset (map int [0..<?n]) - {#int k#})"
    using la(1) by (simp only: k M)
  also have "\<dots> = mset (map int [0..<?n - 1])"
    by (rule shift_down_range[OF k(2)])
  finally show ?thesis
    by (simp only: contiguous_mset len)
qed


lemma find_presentation_after_set:
  "find (\<lambda>q. presentation_id q = pid)
     (map (\<lambda>q. if presentation_id q = pid then q\<lparr>n_slides := k\<rparr> else q) ps) =
   map_option (\<lambda>q. q\<lparr>n_slides := k\<rparr>) (find (\<lambda>q. presentation_id q = pid) ps)"
  by (induction ps) auto

lemma length_live_after_insert:
  assumes "primary_key db" and "presentation new = pid"
      and "slides db' = slides (reindex_for_insert db pid i) @ [new]"
  shows "length (live_slides db' pid) = Suc (length (live_slides db pid))"
proof -
  have "map slide_index (live_slides db' pid) =
        map (\<lambda>x. if i \<le> x then x + 1 else x) (map slide_index (live_slides db pid))
          @ [slide_index new]"
    using assms(2)
    by (simp add: live_slides_def assms(3) slides_reindex_for_insert[OF assms(1)]
          live_indices_shifted)
  from arg_cong[OF this, of length] show ?thesis by simp
qed


lemma delete_slide_succeeds:
  assumes "sql_get_presentation (work s) pid = Some p"
      and "0 \<le> i" and "i < int (length (live_slides (work s) pid))"
      and "first (select_at (work s) pid i) = Some victim"
  shows "\<exists>r s'. delete_slide pid i s = (Inr r, s')
           \<and> slides (store s') =
               slides (reindex_for_delete (sa_delete (work s) (slide_id victim)) pid i)
           \<and> pws_slides r = select_ordered (store s') pid"
  using assms
  by (simp add: delete_slide_def Let_def commit_def set_n_slides_def select_ordered_def
        live_slides_def)

lemma undo_shift:
  "map (\<lambda>r. if presentation r = pid \<and> i < slide_index r
             then r\<lparr>slide_index := slide_index r + (- 1)\<rparr> else r)
     (map (\<lambda>r. if presentation r = pid \<and> i \<le> slide_index r
                then r\<lparr>slide_index := slide_index r + 1\<rparr> else r) rows) = rows"
  by (induction rows) auto

lemma no_shifted_row_at:
  "filter (\<lambda>s. presentation s = pid \<and> slide_index s = i)
     (map (\<lambda>r. if presentation r = pid \<and> i \<le> slide_index r
                then r\<lparr>slide_index := slide_index r + 1\<rparr> else r) rows) = []"
  by (induction rows) auto

lemma ids_after_shift:
  "map slide_id (map (\<lambda>r. if P r then r\<lparr>slide_index := slide_index r + d\<rparr> else r) rows) =
   map slide_id rows"
  by (induction rows) auto


text \<open>
  The primary key survives both operations, the inserted identity being fresh; so the
  hypotheses of the theorems below hold again after each committed operation.
\<close>

lemma primary_key_kept:
  assumes pk: "primary_key db"
  shows "(fresh_uuid db new_id
          \<and> create_slide c new_id pid i content (begin_session db) = (Inr r, s') \<longrightarrow>
            primary_key (store s'))
       \<and> (delete_slide pid i (begin_session db) = (Inr r, s') \<longrightarrow> primary_key (store s'))"
proof (rule conjI; rule impI)
  assume a: "fresh_uuid db new_id
             \<and> create_slide c new_id pid i content (begin_session db) = (Inr r, s')"
  then have ins: "create_slide c new_id pid i content (begin_session db) = (Inr r, s')"
    by simp
  from create_slide_committed[OF ins, unfolded work_begin_session] obtain new where
    sl: "slides (store s') = slides (reindex_for_insert db pid i) @ [new]"
    and new: "slide_id new = new_id"
    by blast
  have "map slide_id (slides (store s')) = map slide_id (slides db) @ [new_id]"
    by (simp only: sl slides_reindex_for_insert[OF pk] map_append ids_after_shift list.map new)
  then show "primary_key (store s')"
    using pk a by (simp add: primary_key_def fresh_uuid_def)
next
  assume "delete_slide pid i (begin_session db) = (Inr r, s')"
  from delete_slide_committed[OF this, unfolded work_begin_session] obtain victim :: SlideModel where
    sl: "slides (store s') = slides (reindex_for_delete (sa_delete db (slide_id victim)) pid i)"
    by blast
  have pk1: "primary_key (sa_delete db (slide_id victim))"
    using pk by (simp add: primary_key_def sa_delete_def distinct_map_filter)
  have "map slide_id (slides (store s')) =
        map slide_id (slides (sa_delete db (slide_id victim)))"
    by (simp only: sl slides_reindex_for_delete[OF pk1] ids_after_shift)
  then show "primary_key (store s')"
    using pk1 by (simp add: primary_key_def)
qed

lemma succeeded: "\<not> isl (fst x) \<Longrightarrow> \<exists>r s'. x = (Inr r, s')"
  by (cases x; cases "fst x") auto








section \<open>Boundary rejection\<close>

text \<open>
  Claim C2. For a presentation that exists, with \<open>count\<close> live slides: \<open>create_slide\<close> at
  an index below 0 or above \<open>count\<close>, and \<open>delete_slide\<close> at an index below 0 or at least
  \<open>count\<close>, raise the HTTP 400 error "Slide index out of range", and the session is the
  one they were given: no slide row and no counter has changed.
\<close>

theorem index_out_of_range_rejected:
  assumes "sql_get_presentation (work s) pid = Some p"
  shows "(index < 0 \<or> index > int (length (live_slides (work s) pid)) \<longrightarrow>
            create_slide c uuid4 pid index content s =
              (Inl (HTTPException 400 ''Slide index out of range''), s))
       \<and> (index < 0 \<or> index \<ge> int (length (live_slides (work s) pid)) \<longrightarrow>
            delete_slide pid index s =
              (Inl (HTTPException 400 ''Slide index out of range''), s))"
  using assms by (simp add: create_slide_def delete_slide_def select_ordered_def)

theorem index_out_of_range_rejected_witness:
  "create_slide (example_collaborators [0]) 13 1 4 ''new'' (begin_session example_db) =
     (Inl (HTTPException 400 ''Slide index out of range''), begin_session example_db)
   \<and> delete_slide 1 3 (begin_session example_db) =
     (Inl (HTTPException 400 ''Slide index out of range''), begin_session example_db)"
  using index_out_of_range_rejected
          [of "begin_session example_db" 1 example_presentation 4
              "example_collaborators [0]" 13 "''new''"]
        index_out_of_range_rejected
          [of "begin_session example_db" 1 example_presentation 3]
  by (simp add: begin_session_def sql_get_presentation_def live_slides_def example_db_def
        example_presentation_def example_slide_def)

section \<open>HTML edit without HTML\<close>

text \<open>
  Claim C10. For an existing slide whose stored \<open>html_content\<close> is absent or empty,
  \<open>edit_slide_html\<close> called without an \<open>html\<close> argument raises the HTTP 400 error
  "No HTML to edit", and the session is the one it was given: the slide keeps its
  identity, its \<open>html_content\<close> and every other field.
\<close>

theorem edit_html_without_html_rejected:
  assumes "sql_get_slide (work s) i = Some slide"
      and "html_content slide = None \<or> html_content slide = Some []"
  shows "edit_slide_html c uuid4 i prompt None s =
           (Inl (HTTPException 400 ''No HTML to edit''), s)"
  using assms by (auto simp: edit_slide_html_def py_or_def truthy_def)

theorem edit_html_without_html_rejected_witness:
  "edit_slide_html (example_collaborators [0]) 13 11 ''make it blue'' None
       (begin_session example_db) =
     (Inl (HTTPException 400 ''No HTML to edit''), begin_session example_db)"
  using edit_html_without_html_rejected
          [of "begin_session example_db" 11 "example_slide 11 1" "example_collaborators [0]" 13
              "''make it blue''"]
  by (simp add: begin_session_def sql_get_slide_def example_db_def example_slide_def)

section \<open>Contiguity invariant\<close>

text \<open>
  Claim C1. When the slide table has its primary key and the live slides of a presentation
  have the indices \<open>0, \<dots>, count - 1\<close> (the empty collection included), then after a
  committed \<open>create_slide\<close> or \<open>delete_slide\<close> the live slides of that presentation
  again have the indices \<open>0, \<dots>, count' - 1\<close>, without gap or duplicate.
\<close>

theorem insert_delete_keep_contiguous:
  assumes "primary_key db" and "contiguous db pid"
  shows "(create_slide c uuid4 pid i content (begin_session db) = (Inr r, s') \<longrightarrow>
            contiguous (store s') pid)
       \<and> (delete_slide pid i (begin_session db) = (Inr r, s') \<longrightarrow>
            contiguous (store s') pid)"
proof (intro conjI impI)
  assume "create_slide c uuid4 pid i content (begin_session db) = (Inr r, s')"
  from create_slide_committed[OF this, unfolded work_begin_session] assms
  show "contiguous (store s') pid"
    by (blast intro: contiguous_after_insert)
next
  assume "delete_slide pid i (begin_session db) = (Inr r, s')"
  from delete_slide_committed[OF this, unfolded work_begin_session] assms
  show "contiguous (store s') pid"
    by (blast intro: contiguous_after_delete)
qed

theorem insert_delete_keep_contiguous_witness:
  "primary_key example_db \<and> contiguous example_db 1
   \<and> (\<exists>r s'. create_slide (example_collaborators [0]) 13 1 1 ''new'' (begin_session example_db)
                = (Inr r, s') \<and> contiguous (store s') 1)
   \<and> (\<exists>r s'. delete_slide 1 1 (begin_session example_db) = (Inr r, s')
              \<and> contiguous (store s') 1)"
proof -
  have pk: "primary_key example_db" by code_simp
  have ct: "contiguous example_db 1" by code_simp
  have "\<not> isl (fst (create_slide (example_collaborators [0]) 13 1 1 ''new''
                      (begin_session example_db)))"
    by code_simp
  then obtain r1 s1 where
    ins: "create_slide (example_collaborators [0]) 13 1 1 ''new'' (begin_session example_db)
            = (Inr r1, s1)"
    using succeeded by blast
  have "\<not> isl (fst (delete_slide 1 1 (begin_session example_db)))"
    by code_simp
  then obtain r2 s2 where del: "delete_slide 1 1 (begin_session example_db) = (Inr r2, s2)"
    using succeeded by blast
  from insert_delete_keep_contiguous[OF pk ct, of "example_collaborators [0]" 13 1 "''new''" r1 s1] ins
  have "contiguous (store s1) 1" by blast
  moreover
  from insert_delete_keep_contiguous[OF pk ct, of _ _ 1 _ r2 s2] del
  have "contiguous (store s2) 1" by blast
  ultimately show ?thesis using pk ct ins del by blast
qed

section \<open>Counter consistency\<close>

text \<open>
  Claim C6. When \<open>n_slides\<close> of a presentation equals the number of its live slides, then
  after a committed \<open>create_slide\<close> (which adds one) or \<open>delete_slide\<close> (which subtracts
  one, not below 0) the stored \<open>n_slides\<close> equals the number of rows of the ordered listing.
\<close>

theorem counter_follows_listing:
  assumes "primary_key db"
      and "sql_get_presentation db pid = Some p"
      and "n_slides p = int (length (live_slides db pid))"
  shows "(create_slide c uuid4 pid i content (begin_session db) = (Inr r, s') \<longrightarrow>
            (\<exists>p'. sql_get_presentation (store s') pid = Some p'
                  \<and> n_slides p' = n_slides p + 1
                  \<and> n_slides p' = int (length (select_ordered (store s') pid))))
       \<and> (delete_slide pid i (begin_session db) = (Inr r, s') \<longrightarrow>
            (\<exists>p'. sql_get_presentation (store s') pid = Some p'
                  \<and> n_slides p' = max 0 (n_slides p - 1)
                  \<and> n_slides p' = int (length (select_ordered (store s') pid))))"
proof (intro conjI impI)
  assume "create_slide c uuid4 pid i content (begin_session db) = (Inr r, s')"
  from create_slide_committed[OF this, unfolded work_begin_session] obtain p0 new where
    p0: "sql_get_presentation db pid = Some p0"
    and new: "presentation new = pid"
    and sl: "slides (store s') = slides (reindex_for_insert db pid i) @ [new]"
    and pr0: "presentations (store s') =
       map (\<lambda>q. if presentation_id q = pid
                 then q\<lparr>n_slides := n_slides_after_insert p0 (select_ordered db pid)\<rparr>
                 else q) (presentations db)"
    by blast
  from p0 assms(2) have "p0 = p" by simp
  note pr = pr0[unfolded this]
  have len: "length (live_slides (store s') pid) = Suc (length (live_slides db pid))"
    using assms(1) new sl by (rule length_live_after_insert)
  have "sql_get_presentation (store s') pid =
        Some (p\<lparr>n_slides := n_slides_after_insert p (select_ordered db pid)\<rparr>)"
    using assms(2) by (simp add: sql_get_presentation_def pr find_presentation_after_set)
  moreover have "n_slides_after_insert p (select_ordered db pid) = n_slides p + 1"
    using assms(3) by (simp add: n_slides_after_insert_def select_ordered_def)
  ultimately show "\<exists>p'. sql_get_presentation (store s') pid = Some p'
                  \<and> n_slides p' = n_slides p + 1
                  \<and> n_slides p' = int (length (select_ordered (store s') pid))"
    using assms(3) len by (simp add: select_ordered_def)
next
  assume "delete_slide pid i (begin_session db) = (Inr r, s')"
  from delete_slide_committed[OF this, unfolded work_begin_session] obtain p0 victim where
    p0: "sql_get_presentation db pid = Some p0"
    and v: "first (select_at db pid i) = Some victim"
    and sl: "slides (store s') = slides (reindex_for_delete (sa_delete db (slide_id victim)) pid i)"
    and pr0: "presentations (store s') =
       map (\<lambda>q. if presentation_id q = pid then q\<lparr>n_slides := max 0 (n_slides p0 - 1)\<rparr> else q)
         (presentations db)"
    by blast
  from p0 assms(2) have "p0 = p" by simp
  note pr = pr0[unfolded this]
  have len: "Suc (length (live_slides (store s') pid)) = length (live_slides db pid)"
    using assms(1) v sl by (rule live_after_delete(2))
  have "sql_get_presentation (store s') pid = Some (p\<lparr>n_slides := max 0 (n_slides p - 1)\<rparr>)"
    using assms(2) by (simp add: sql_get_presentation_def pr find_presentation_after_set)
  then show "\<exists>p'. sql_get_presentation (store s') pid = Some p'
                  \<and> n_slides p' = max 0 (n_slides p - 1)
                  \<and> n_slides p' = int (length (select_ordered (store s') pid))"
    using assms(3) len by (auto simp: select_ordered_def)
qed


theorem counter_follows_listing_witness:
  "primary_key example_db \<and> sql_get_presentation example_db 1 = Some example_presentation
   \<and> n_slides example_presentation = int (length (live_slides example_db 1))
   \<and> (\<exists>r s' p'. create_slide (example_collaborators [0]) 13 1 1 ''new''
                     (begin_session example_db) = (Inr r, s')
          \<and> sql_get_presentation (store s') 1 = Some p' \<and> n_slides p' = 4
          \<and> n_slides p' = int (length (select_ordered (store s') 1)))
   \<and> (\<exists>r s' p'. delete_slide 1 1 (begin_session example_db) = (Inr r, s')
          \<and> sql_get_presentation (store s') 1 = Some p' \<and> n_slides p' = 2
          \<and> n_slides p' = int (length (select_ordered (store s') 1)))"
proof -
  have pk: "primary_key example_db" by code_simp
  have p: "sql_get_presentation example_db 1 = Some example_presentation" by code_simp
  have n: "n_slides example_presentation = int (length (live_slides example_db 1))" by code_simp
  have n3: "n_slides example_presentation = 3" by code_simp
  have "\<not> isl (fst (create_slide (example_collaborators [0]) 13 1 1 ''new''
                      (begin_session example_db)))"
    by code_simp
  then obtain r1 s1 where
    ins: "create_slide (example_collaborators [0]) 13 1 1 ''new'' (begin_session example_db)
            = (Inr r1, s1)"
    using succeeded by blast
  have "\<not> isl (fst (delete_slide 1 1 (begin_session example_db)))"
    by code_simp
  then obtain r2 s2 where del: "delete_slide 1 1 (begin_session example_db) = (Inr r2, s2)"
    using succeeded by blast
  from counter_follows_listing[OF pk p n, of "example_collaborators [0]" 13 1 "''new''" r1 s1] ins n3
  have "\<exists>p'. sql_get_presentation (store s1) 1 = Some p' \<and> n_slides p' = 4
          \<and> n_slides p' = int (length (select_ordered (store s1) 1))"
    by simp
  moreover
  from counter_follows_listing[OF pk p n, of _ _ 1 _ r2 s2] del n3
  have "\<exists>p'. sql_get_presentation (store s2) 1 = Some p' \<and> n_slides p' = 2
          \<and> n_slides p' = int (length (select_ordered (store s2) 1))"
    by simp
  ultimately show ?thesis using pk p n ins del by blast
qed

section \<open>Insert then delete\<close>

text \<open>
  Claim C3. After a committed \<open>create_slide\<close> at index \<open>i\<close> with a fresh identity, a
  \<open>delete_slide\<close> at index \<open>i\<close> succeeds and the slide table is the one before the
  insert: every earlier slide is at its index with its identity and content, and no row
  has the inserted identity.
\<close>

theorem insert_then_delete_restores:
  assumes pk: "primary_key db" and fr: "fresh_uuid db uuid4"
      and ins: "create_slide c uuid4 pid i content (begin_session db) = (Inr r, s1)"
  shows "\<exists>r2 s2. delete_slide pid i (begin_session (store s1)) = (Inr r2, s2)
           \<and> slides (store s2) = slides db
           \<and> pws_slides r2 = select_ordered db pid
           \<and> sql_get_slide (store s2) uuid4 = None"
proof -
  let ?up = "\<lambda>r. if presentation r = pid \<and> i \<le> slide_index r
                  then r\<lparr>slide_index := slide_index r + 1\<rparr> else r"
  from create_slide_committed[OF ins, unfolded work_begin_session] obtain p new where
    p: "sql_get_presentation db pid = Some p"
    and rng: "0 \<le> i" "i \<le> int (length (live_slides db pid))"
    and sl0: "slides (store s1) = slides (reindex_for_insert db pid i) @ [new]"
    and new: "slide_id new = uuid4" "presentation new = pid" "slide_index new = i"
    and pr: "presentations (store s1) =
       map (\<lambda>q. if presentation_id q = pid
                 then q\<lparr>n_slides := n_slides_after_insert p (select_ordered db pid)\<rparr>
                 else q) (presentations db)"
    by blast
  have sl: "slides (store s1) = map ?up (slides db) @ [new]"
    using sl0 by (simp only: slides_reindex_for_insert[OF pk])
  have p1: "sql_get_presentation (work (begin_session (store s1))) pid =
            Some (p\<lparr>n_slides := n_slides_after_insert p (select_ordered db pid)\<rparr>)"
    using p by (simp add: begin_session_def sql_get_presentation_def pr find_presentation_after_set)
  have len: "i < int (length (live_slides (work (begin_session (store s1))) pid))"
    using rng(2) length_live_after_insert[OF pk new(2) sl0] by (simp add: begin_session_def)
  have at: "first (select_at (work (begin_session (store s1))) pid i) = Some new"
    using new by (simp add: begin_session_def select_at_def sl no_shifted_row_at first_def)
  from delete_slide_succeeds[OF p1 rng(1) len at, unfolded work_begin_session] obtain r2 s2 where
    del: "delete_slide pid i (begin_session (store s1)) = (Inr r2, s2)"
    and sl2: "slides (store s2) =
               slides (reindex_for_delete (sa_delete (store s1) (slide_id new)) pid i)"
    and r2: "pws_slides r2 = select_ordered (store s2) pid"
    by blast
  have "\<forall>x \<in> set (map ?up (slides db)). slide_id x \<noteq> uuid4"
    using fr ids_after_shift[of "\<lambda>r. presentation r = pid \<and> i \<le> slide_index r" 1 "slides db"]
    by (metis (no_types, lifting) fresh_uuid_def image_eqI list.set_map)
  then have gone: "slides (sa_delete (store s1) (slide_id new)) = map ?up (slides db)"
    by (simp add: sa_delete_def sl new filter_id_conv)
  have pk1: "primary_key (sa_delete (store s1) (slide_id new))"
    using pk by (simp only: primary_key_def gone ids_after_shift)
  have restored: "slides (store s2) = slides db"
    by (simp only: sl2 slides_reindex_for_delete[OF pk1] gone undo_shift)
  moreover have "pws_slides r2 = select_ordered db pid"
    by (simp add: r2 select_ordered_def live_slides_def restored)
  moreover have "sql_get_slide (store s2) uuid4 = None"
    using fr by (auto simp: sql_get_slide_def restored fresh_uuid_def find_None_iff)
  ultimately show ?thesis using del by blast
qed

theorem insert_then_delete_restores_witness:
  "primary_key example_db \<and> fresh_uuid example_db 13
   \<and> (\<exists>r s1 r2 s2.
         create_slide (example_collaborators [0]) 13 1 1 ''new'' (begin_session example_db)
           = (Inr r, s1)
         \<and> delete_slide 1 1 (begin_session (store s1)) = (Inr r2, s2)
         \<and> slides (store s2) = slides example_db
         \<and> pws_slides r2 = select_ordered example_db 1
         \<and> sql_get_slide (store s2) 13 = None)"
proof -
  have pk: "primary_key example_db" by code_simp
  have fr: "fresh_uuid example_db 13" by code_simp
  have "\<not> isl (fst (create_slide (example_collaborators [0]) 13 1 1 ''new''
                      (begin_session example_db)))"
    by code_simp
  then obtain r1 s1 where
    ins: "create_slide (example_collaborators [0]) 13 1 1 ''new'' (begin_session example_db)
            = (Inr r1, s1)"
    using succeeded by blast
  from insert_then_delete_restores[OF pk fr ins] ins pk fr show ?thesis by blast
qed

section \<open>Shift direction\<close>



section \<open>Edits reassign the identity\<close>



section \<open>Layout index fallback\<close>

text \<open>
  Claim C7 says that every out-of-bounds layout index suggested by the structure
  collaborator, negative ones included, is replaced by a safe default. The guard at line
  230 only tests \<^verbatim>\<open>layout_index >= len(layout_model.slides)\<close>. With three layouts, the
  suggestion \<open>-4\<close> passes the guard and \<^verbatim>\<open>layout_model.slides[-4]\<close> raises
  \<^verbatim>\<open>IndexError\<close>; the suggestion \<open>-1\<close> selects the last layout and not the default;
  the suggestion \<open>7\<close> falls back to index 0.
\<close>

theorem negative_layout_index_not_clamped:
  "select_slide_layout example_layout [- 4] = Inl IndexError
   \<and> create_slide (example_collaborators [- 4]) 13 1 1 ''new'' (begin_session example_db)
       = (Inl IndexError, begin_session example_db)
   \<and> select_slide_layout example_layout [- 1] = Inr \<lparr>layout_id = ''image''\<rparr>
   \<and> select_slide_layout example_layout [7] = Inr \<lparr>layout_id = ''title''\<rparr>"
  by code_simp

section \<open>Collaborator failures\<close>

text \<open>
  Claim C9. When a collaborator step of \<open>create_slide\<close>, \<open>edit_slide\<close> or
  \<open>edit_slide_html\<close> fails (the structure or content generation raises, the structure is
  empty, the layout selection raises, the asset functions raise, the HTML edit raises),
  the operation returns that error and the committed store is the one before: no new
  row, no shifted index, no counter change and no asset is stored. For the failure of
  \<open>process_slide_and_fetch_assets\<close> the indices were already shifted in the session's own
  view, which is discarded. \<open>delete_slide\<close> awaits no collaborator.
\<close>

theorem collaborator_failure_aborts:
  assumes "sql_get_presentation (work s) pid = Some p"
  shows "(0 \<le> i \<and> i \<le> int (length (live_slides (work s) pid))
          \<and> presentation_structure c p content = Inl e \<longrightarrow>
            create_slide c new_id pid i content s = (Inl e, s))
       \<and> (0 \<le> i \<and> i \<le> int (length (live_slides (work s) pid))
          \<and> presentation_structure c p content = Inr [] \<longrightarrow>
            create_slide c new_id pid i content s =
              (Inl (HTTPException 500 ''Failed to select slide layout''), s))
       \<and> (0 \<le> i \<and> i \<le> int (length (live_slides (work s) pid))
          \<and> presentation_structure c p content = Inr structure
          \<and> select_slide_layout (get_layout p) structure = Inr slide_layout
          \<and> get_slide_content_from_type_and_outline c slide_layout content
                (language p) (tone p) (verbosity p) (instructions p) = Inl e \<longrightarrow>
            create_slide c new_id pid i content s = (Inl e, s))
       \<and> (0 \<le> i \<and> i \<le> int (length (live_slides (work s) pid))
          \<and> presentation_structure c p content = Inr structure
          \<and> select_slide_layout (get_layout p) structure = Inr slide_layout
          \<and> get_slide_content_from_type_and_outline c slide_layout content
                (language p) (tone p) (verbosity p) (instructions p) = Inr generated
          \<and> process_slide_and_fetch_assets c
                (new_slide_model new_id pid (get_layout p) slide_layout i generated) = Inl e \<longrightarrow>
            fst (create_slide c new_id pid i content s) = Inl e
            \<and> store (snd (create_slide c new_id pid i content s)) = store s)
       \<and> (first (select_at (work s) pid i) = Some slide
          \<and> get_slide_layout_from_prompt c prompt (get_layout p) slide = Inl e \<longrightarrow>
            edit_slide c new_id pid i prompt s = (Inl e, s))
       \<and> (first (select_at (work s) pid i) = Some slide
          \<and> get_slide_layout_from_prompt c prompt (get_layout p) slide = Inr slide_layout
          \<and> get_edited_slide_content c prompt slide (language p) slide_layout = Inl e \<longrightarrow>
            edit_slide c new_id pid i prompt s = (Inl e, s))
       \<and> (first (select_at (work s) pid i) = Some slide
          \<and> get_slide_layout_from_prompt c prompt (get_layout p) slide = Inr slide_layout
          \<and> get_edited_slide_content c prompt slide (language p) slide_layout = Inr generated
          \<and> process_old_and_new_slides_and_fetch_assets c (slide_content slide) generated
               = Inl e \<longrightarrow>
            edit_slide c new_id pid i prompt s = (Inl e, s))
       \<and> (sql_get_slide (work s) j = Some slide
          \<and> py_or html (html_content slide) = Some html_to_edit \<and> html_to_edit \<noteq> []
          \<and> get_edited_slide_html c prompt html_to_edit = Inl e \<longrightarrow>
            edit_slide_html c new_id j prompt html s = (Inl e, s))"
proof -
  have create1: "0 \<le> i \<and> i \<le> int (length (live_slides (work s) pid))
          \<and> presentation_structure c p content = Inl e \<longrightarrow>
            create_slide c new_id pid i content s = (Inl e, s)"
    using assms by (simp add: create_slide_def select_ordered_def)
  have create2: "0 \<le> i \<and> i \<le> int (length (live_slides (work s) pid))
          \<and> presentation_structure c p content = Inr [] \<longrightarrow>
            create_slide c new_id pid i content s =
              (Inl (HTTPException 500 ''Failed to select slide layout''), s)"
    using assms by (simp add: create_slide_def select_ordered_def select_slide_layout_def)
  have create3: "0 \<le> i \<and> i \<le> int (length (live_slides (work s) pid))
          \<and> presentation_structure c p content = Inr structure
          \<and> select_slide_layout (get_layout p) structure = Inr slide_layout
          \<and> get_slide_content_from_type_and_outline c slide_layout content
                (language p) (tone p) (verbosity p) (instructions p) = Inl e \<longrightarrow>
            create_slide c new_id pid i content s = (Inl e, s)"
    using assms by (simp add: create_slide_def select_ordered_def)
  have create4: "0 \<le> i \<and> i \<le> int (length (live_slides (work s) pid))
          \<and> presentation_structure c p content = Inr structure
          \<and> select_slide_layout (get_layout p) structure = Inr slide_layout
          \<and> get_slide_content_from_type_and_outline c slide_layout content
                (language p) (tone p) (verbosity p) (instructions p) = Inr generated
          \<and> process_slide_and_fetch_assets c
                (new_slide_model new_id pid (get_layout p) slide_layout i generated) = Inl e \<longrightarrow>
            fst (create_slide c new_id pid i content s) = Inl e
            \<and> store (snd (create_slide c new_id pid i content s)) = store s"
    using assms by (simp add: create_slide_def select_ordered_def Let_def)
  have edit1: "first (select_at (work s) pid i) = Some slide
          \<and> get_slide_layout_from_prompt c prompt (get_layout p) slide = Inl e \<longrightarrow>
            edit_slide c new_id pid i prompt s = (Inl e, s)"
    using assms by (simp add: edit_slide_def)
  have edit2: "first (select_at (work s) pid i) = Some slide
          \<and> get_slide_layout_from_prompt c prompt (get_layout p) slide = Inr slide_layout
          \<and> get_edited_slide_content c prompt slide (language p) slide_layout = Inl e \<longrightarrow>
            edit_slide c new_id pid i prompt s = (Inl e, s)"
    using assms by (simp add: edit_slide_def)
  have edit3: "first (select_at (work s) pid i) = Some slide
          \<and> get_slide_layout_from_prompt c prompt (get_layout p) slide = Inr slide_layout
          \<and> get_edited_slide_content c prompt slide (language p) slide_layout = Inr generated
          \<and> process_old_and_new_slides_and_fetch_assets c (slide_content slide) generated
               = Inl e \<longrightarrow>
            edit_slide c new_id pid i prompt s = (Inl e, s)"
    using assms by (simp add: edit_slide_def)
  have html1: "sql_get_slide (work s) j = Some slide
          \<and> py_or html (html_content slide) = Some html_to_edit \<and> html_to_edit \<noteq> []
          \<and> get_edited_slide_html c prompt html_to_edit = Inl e \<longrightarrow>
            edit_slide_html c new_id j prompt html s = (Inl e, s)"
    by (simp add: edit_slide_html_def)
  from create1 create2 create3 create4 edit1 edit2 edit3 html1 show ?thesis
    by (intro conjI)
qed

theorem collaborator_failure_aborts_witness:
  "sql_get_presentation (work (begin_session example_db)) 1 = Some example_presentation
   \<and> create_slide
         ((example_collaborators [0])
            \<lparr>generate_presentation_structure := \<lambda>_ _ _ _. Inl (CollaboratorError ''llm'')\<rparr>)
         13 1 1 ''new'' (begin_session example_db) =
       (Inl (CollaboratorError ''llm''), begin_session example_db)
   \<and> create_slide (example_collaborators []) 13 1 1 ''new'' (begin_session example_db) =
       (Inl (HTTPException 500 ''Failed to select slide layout''), begin_session example_db)
   \<and> create_slide
         ((example_collaborators [0])
            \<lparr>get_slide_content_from_type_and_outline :=
               \<lambda>_ _ _ _ _ _. Inl (CollaboratorError ''llm'')\<rparr>)
         13 1 1 ''new'' (begin_session example_db) =
       (Inl (CollaboratorError ''llm''), begin_session example_db)
   \<and> fst (create_slide
             ((example_collaborators [0])
                \<lparr>process_slide_and_fetch_assets := \<lambda>_. Inl (CollaboratorError ''images'')\<rparr>)
             13 1 1 ''new'' (begin_session example_db)) = Inl (CollaboratorError ''images'')
   \<and> store (snd (create_slide
             ((example_collaborators [0])
                \<lparr>process_slide_and_fetch_assets := \<lambda>_. Inl (CollaboratorError ''images'')\<rparr>)
             13 1 1 ''new'' (begin_session example_db))) = example_db
   \<and> edit_slide
         ((example_collaborators [0])
            \<lparr>get_slide_layout_from_prompt := \<lambda>_ _ _. Inl (CollaboratorError ''llm'')\<rparr>)
         13 1 1 ''shorter'' (begin_session example_db) =
       (Inl (CollaboratorError ''llm''), begin_session example_db)
   \<and> edit_slide
         ((example_collaborators [0])
            \<lparr>get_edited_slide_content := \<lambda>_ _ _ _. Inl (CollaboratorError ''llm'')\<rparr>)
         13 1 1 ''shorter'' (begin_session example_db) =
       (Inl (CollaboratorError ''llm''), begin_session example_db)
   \<and> edit_slide
         ((example_collaborators [0])
            \<lparr>process_old_and_new_slides_and_fetch_assets :=
               \<lambda>_ _. Inl (CollaboratorError ''images'')\<rparr>)
         13 1 1 ''shorter'' (begin_session example_db) =
       (Inl (CollaboratorError ''images''), begin_session example_db)
   \<and> edit_slide_html
         ((example_collaborators [0])
            \<lparr>get_edited_slide_html := \<lambda>_ _. Inl (CollaboratorError ''llm'')\<rparr>)
         13 11 ''shorter'' (Some ''<p/>'') (begin_session example_db) =
       (Inl (CollaboratorError ''llm''), begin_session example_db)"
proof -
  let ?s = "begin_session example_db"
  let ?p = example_presentation
  let ?title = "\<lparr>layout_id = ''title''\<rparr>"
  let ?bullets = "\<lparr>layout_id = ''bullets''\<rparr>"
  let ?new = "[(''title'', ''new''), (''__speaker_note__'', ''note'')]"
  let ?cs = "(example_collaborators [0])
            \<lparr>generate_presentation_structure := \<lambda>_ _ _ _. Inl (CollaboratorError ''llm'')\<rparr>"
  let ?cg = "(example_collaborators [0])
            \<lparr>get_slide_content_from_type_and_outline :=
               \<lambda>_ _ _ _ _ _. Inl (CollaboratorError ''llm'')\<rparr>"
  let ?ca = "(example_collaborators [0])
                \<lparr>process_slide_and_fetch_assets := \<lambda>_. Inl (CollaboratorError ''images'')\<rparr>"
  let ?cl = "(example_collaborators [0])
            \<lparr>get_slide_layout_from_prompt := \<lambda>_ _ _. Inl (CollaboratorError ''llm'')\<rparr>"
  let ?cc = "(example_collaborators [0])
            \<lparr>get_edited_slide_content := \<lambda>_ _ _ _. Inl (CollaboratorError ''llm'')\<rparr>"
  let ?ce = "(example_collaborators [0])
            \<lparr>process_old_and_new_slides_and_fetch_assets :=
               \<lambda>_ _. Inl (CollaboratorError ''images'')\<rparr>"
  let ?ch = "(example_collaborators [0])
            \<lparr>get_edited_slide_html := \<lambda>_ _. Inl (CollaboratorError ''llm'')\<rparr>"
  have p: "sql_get_presentation (work ?s) 1 = Some ?p"
    by code_simp
  have st: "store ?s = example_db"
    by (simp add: begin_session_def)
  note t = collaborator_failure_aborts[OF p]
  have h1: "0 \<le> (1::int) \<and> 1 \<le> int (length (live_slides (work ?s) 1))
          \<and> presentation_structure ?cs ?p ''new'' = Inl (CollaboratorError ''llm'')"
    by code_simp
  have r1: "create_slide ?cs 13 1 1 ''new'' ?s = (Inl (CollaboratorError ''llm''), ?s)"
    by (rule t[THEN conjunct1, THEN mp, OF h1])
  have h2: "0 \<le> (1::int) \<and> 1 \<le> int (length (live_slides (work ?s) 1))
          \<and> presentation_structure (example_collaborators []) ?p ''new'' = Inr []"
    by code_simp
  have r2: "create_slide (example_collaborators []) 13 1 1 ''new'' ?s =
              (Inl (HTTPException 500 ''Failed to select slide layout''), ?s)"
    by (rule t[THEN conjunct2, THEN conjunct1, THEN mp, OF h2])
  have h3: "0 \<le> (1::int) \<and> 1 \<le> int (length (live_slides (work ?s) 1))
          \<and> presentation_structure ?cg ?p ''new'' = Inr [0]
          \<and> select_slide_layout (get_layout ?p) [0] = Inr ?title
          \<and> get_slide_content_from_type_and_outline ?cg ?title ''new''
                (language ?p) (tone ?p) (verbosity ?p) (instructions ?p)
              = Inl (CollaboratorError ''llm'')"
    by code_simp
  have r3: "create_slide ?cg 13 1 1 ''new'' ?s = (Inl (CollaboratorError ''llm''), ?s)"
    by (rule t[THEN conjunct2, THEN conjunct2, THEN conjunct1, THEN mp, OF h3])
  have h4: "0 \<le> (1::int) \<and> 1 \<le> int (length (live_slides (work ?s) 1))
          \<and> presentation_structure ?ca ?p ''new'' = Inr [0]
          \<and> select_slide_layout (get_layout ?p) [0] = Inr ?title
          \<and> get_slide_content_from_type_and_outline ?ca ?title ''new''
                (language ?p) (tone ?p) (verbosity ?p) (instructions ?p) = Inr ?new
          \<and> process_slide_and_fetch_assets ?ca
                (new_slide_model 13 1 (get_layout ?p) ?title 1 ?new)
              = Inl (CollaboratorError ''images'')"
    by code_simp
  have r4: "fst (create_slide ?ca 13 1 1 ''new'' ?s) = Inl (CollaboratorError ''images'')
            \<and> store (snd (create_slide ?ca 13 1 1 ''new'' ?s)) = example_db"
    using t[THEN conjunct2, THEN conjunct2, THEN conjunct2, THEN conjunct1, THEN mp, OF h4]
    unfolding st .
  have h5: "first (select_at (work ?s) 1 1) = Some (example_slide 11 1)
          \<and> get_slide_layout_from_prompt ?cl ''shorter'' (get_layout ?p) (example_slide 11 1)
              = Inl (CollaboratorError ''llm'')"
    by code_simp
  have r5: "edit_slide ?cl 13 1 1 ''shorter'' ?s = (Inl (CollaboratorError ''llm''), ?s)"
    by (rule t[THEN conjunct2, THEN conjunct2, THEN conjunct2, THEN conjunct2, THEN conjunct1,
               THEN mp, OF h5])
  have h6: "first (select_at (work ?s) 1 1) = Some (example_slide 11 1)
          \<and> get_slide_layout_from_prompt ?cc ''shorter'' (get_layout ?p) (example_slide 11 1)
              = Inr ?bullets
          \<and> get_edited_slide_content ?cc ''shorter'' (example_slide 11 1) (language ?p) ?bullets
              = Inl (CollaboratorError ''llm'')"
    by code_simp
  have r6: "edit_slide ?cc 13 1 1 ''shorter'' ?s = (Inl (CollaboratorError ''llm''), ?s)"
    by (rule t[THEN conjunct2, THEN conjunct2, THEN conjunct2, THEN conjunct2, THEN conjunct2,
               THEN conjunct1, THEN mp, OF h6])
  have h7: "first (select_at (work ?s) 1 1) = Some (example_slide 11 1)
          \<and> get_slide_layout_from_prompt ?ce ''shorter'' (get_layout ?p) (example_slide 11 1)
              = Inr ?bullets
          \<and> get_edited_slide_content ?ce ''shorter'' (example_slide 11 1) (language ?p) ?bullets
              = Inr [(''title'', ''shorter'')]
          \<and> process_old_and_new_slides_and_fetch_assets ?ce
               (slide_content (example_slide 11 1)) [(''title'', ''shorter'')]
              = Inl (CollaboratorError ''images'')"
    by code_simp
  have r7: "edit_slide ?ce 13 1 1 ''shorter'' ?s = (Inl (CollaboratorError ''images''), ?s)"
    by (rule t[THEN conjunct2, THEN conjunct2, THEN conjunct2, THEN conjunct2, THEN conjunct2,
               THEN conjunct2, THEN conjunct1, THEN mp, OF h7])
  have h8: "sql_get_slide (work ?s) 11 = Some (example_slide 11 1)
          \<and> py_or (Some ''<p/>'') (html_content (example_slide 11 1)) = Some ''<p/>''
          \<and> ''<p/>'' \<noteq> []
          \<and> get_edited_slide_html ?ch ''shorter'' ''<p/>'' = Inl (CollaboratorError ''llm'')"
    by code_simp
  have r8: "edit_slide_html ?ch 13 11 ''shorter'' (Some ''<p/>'') ?s =
              (Inl (CollaboratorError ''llm''), ?s)"
    by (rule t[THEN conjunct2, THEN conjunct2, THEN conjunct2, THEN conjunct2, THEN conjunct2,
               THEN conjunct2, THEN conjunct2, THEN mp, OF h8])
  from p r1 r2 r3 r4 r5 r6 r7 r8 show ?thesis
    by (intro conjI) (simp_all only:)
qed

section \<open>Object storage without configuration\<close>



end
